theory Spec2Isabelle
  imports Complex_Main
begin

section \<open>Trip extraction and warehouse merge (\<open>src/lambda/trips_lambda.py\<close>)\<close>

text \<open>
  The program is one SQL query over the table \<open>bike_status\<close>, one upsert into the table
  \<open>all_trips\<close>, and the Python that runs the two inside a transaction. The query is
  embedded relation by relation: a table or common table expression is a list of rows, a
  row is a record whose fields are the columns. Timestamps are seconds on the time line
  (\<open>real\<close>), \<open>double precision\<close> columns are \<open>real\<close>: sums, comparisons and the
  distance are computed in exact arithmetic. What the source server computes from its own
  tables and settings (the conversion to local time, the division of seconds by
  \<open>60.0\<close>) is a parameter of the query.
\<close>

subsection \<open>Rows\<close>

text \<open>Every relation of the query starts with the columns \<open>bike_id, provider_id\<close>.\<close>

record vehicle =
  bike_id :: string
  provider_id :: string

text \<open>
  \<open>bike_status\<close> (created in \<open>bike_lambda.py\<close>): \<open>PRIMARY KEY (bike_id, timestamp)\<close>, so
  neither is NULL and a vehicle has one row per timestamp. The columns \<open>is_reserved\<close> and
  \<open>is_disabled\<close> are not read by the query. \<open>lat\<close> and \<open>lon\<close> are taken as not NULL
  (the ingestion writes them from the feed for every row).
\<close>

record bike_status = vehicle +
  lat :: real
  lon :: real
  timestamp :: real

text \<open>
  A row of the CTE \<open>trip_data\<close>: the \<open>bike_status\<close> row it is computed from, its local
  time and the three \<open>LAG\<close> columns, NULL (\<open>None\<close>) on the first row of a partition.
\<close>

record trip_data_row = bike_status +
  local_time :: real
  prev_time :: "real option"
  prev_lat :: "real option"
  prev_lon :: "real option"

text \<open>The four coordinate columns shared by \<open>trip_segments\<close>, \<open>trip_aggregates\<close> and \<open>all_trips\<close>.\<close>

record endpoints = vehicle +
  start_lat :: real
  start_lon :: real
  end_lat :: real
  end_lon :: real

record trip_segment = endpoints +
  end_time :: real
  start_time :: real
  duration_minutes :: real
  distance_km :: real

text \<open>A row of \<open>trip_aggregates\<close>, of the final \<open>SELECT\<close>, and the columns the upsert writes.\<close>

record trip = endpoints +
  trip_start :: real
  trip_end :: real
  total_duration :: real
  total_distance :: real
  segment_count :: int

text \<open>
  A row of \<open>all_trips\<close>: the trip columns, the surrogate key \<open>trip_id\<close> and the columns
  the upsert never names (NULL on insert).
\<close>

record all_trips_row = trip +
  trip_id :: int
  municipality :: "string option"
  canton :: "string option"
  vehicle_type :: "string option"
  city :: "string option"
  temperature :: "real option"
  humidity :: "real option"
  aqi :: "real option"
  pm25 :: "real option"

subsection \<open>The distance expression of \<open>trip_segments\<close>\<close>

definition radians :: "real \<Rightarrow> real" where
  "radians d = d * pi / 180"

text \<open>The argument of \<open>sqrt\<close>, with the columns in the order \<open>prev_lat, prev_lon, lat, lon\<close>.\<close>

definition haversine_arg :: "real \<Rightarrow> real \<Rightarrow> real \<Rightarrow> real \<Rightarrow> real" where
  "haversine_arg plat plon la lo =
     (sin (radians (la - plat) / 2))\<^sup>2 +
     cos (radians plat) * cos (radians la) * (sin (radians (lo - plon) / 2))\<^sup>2"

text \<open>\<open>6371 * 2 * asin(sqrt(...)) as distance_km\<close>: no \<open>LEAST\<close>/\<open>GREATEST\<close> around the argument.\<close>

definition haversine_km :: "real \<Rightarrow> real \<Rightarrow> real \<Rightarrow> real \<Rightarrow> real" where
  "haversine_km plat plon la lo = 6371 * 2 * arcsin (sqrt (haversine_arg plat plon la lo))"

subsection \<open>The extraction query\<close>

text \<open>\<open>WHERE timestamp >= %s::timestamp AND timestamp < %s::timestamp\<close>\<close>

definition in_window :: "real \<Rightarrow> real \<Rightarrow> bike_status \<Rightarrow> bool" where
  "in_window start_date end_date r \<longleftrightarrow> start_date \<le> timestamp r \<and> timestamp r < end_date"

text \<open>
  \<open>PARTITION BY bike_id ORDER BY timestamp\<close>: one partition per vehicle, each sorted by
  \<open>timestamp\<close>. SQL leaves the order of the partitions open; here it is the order in which
  the vehicles occur last in the table.
\<close>

definition partitions :: "bike_status list \<Rightarrow> bike_status list list" where
  "partitions rows =
     map (\<lambda>b. sort_key timestamp (filter (\<lambda>r. bike_id r = b) rows)) (remdups (map bike_id rows))"

text \<open>
  The two operations of the query whose result is the source server's business:
  \<^item> \<open>at_zurich\<close> is \<open>AT TIME ZONE 'UTC' AT TIME ZONE 'Europe/Zurich'\<close>, the wall-clock time
    in Zurich of an instant, read from the server's time zone database;
  \<^item> \<open>divide_60\<close> is \<open>/ 60.0\<close> on the seconds that \<open>EXTRACT(EPOCH FROM ...)\<close> returns: a
    division in \<open>numeric\<close>, rounded to the scale the server selects, where \<open>EXTRACT\<close>
    returns \<open>numeric\<close> (PostgreSQL 14 and later), and in \<open>double precision\<close> before.
\<close>

record source_server =
  at_zurich :: "real \<Rightarrow> real"
  divide_60 :: "real \<Rightarrow> real"

text \<open>
  The \<open>SELECT\<close> list of \<open>trip_data\<close> along one partition; \<open>prev\<close> is the row before the
  current one, which the three \<open>LAG\<close> columns read.
\<close>

fun lag_rows :: "source_server \<Rightarrow> bike_status option \<Rightarrow> bike_status list \<Rightarrow> trip_data_row list" where
  "lag_rows srv prev [] = []"
| "lag_rows srv prev (r # rs) =
     \<lparr>bike_id = bike_id r, provider_id = provider_id r,
      lat = lat r, lon = lon r, timestamp = timestamp r,
      local_time = at_zurich srv (timestamp r),
      prev_time = map_option (\<lambda>p. at_zurich srv (timestamp p)) prev,
      prev_lat = map_option lat prev,
      prev_lon = map_option lon prev\<rparr> # lag_rows srv (Some r) rs"

definition trip_data :: "source_server \<Rightarrow> bike_status list \<Rightarrow> real \<Rightarrow> real \<Rightarrow> trip_data_row list" where
  "trip_data srv tbl start_date end_date =
     concat (map (lag_rows srv None) (partitions (filter (in_window start_date end_date) tbl)))"

text \<open>
  The \<open>WHERE\<close> clause of \<open>trip_segments\<close> on a row whose \<open>LAG\<close> columns are not NULL
  (\<open>pt\<close>, \<open>plat\<close>, \<open>plon\<close>): \<open>EXTRACT(EPOCH FROM (local_time - prev_time))\<close> is the
  difference in seconds.
\<close>

definition segment_where :: "trip_data_row \<Rightarrow> real \<Rightarrow> real \<Rightarrow> real \<Rightarrow> bool" where
  "segment_where r pt plat plon \<longleftrightarrow>
     60 \<le> local_time r - pt \<and> local_time r - pt \<le> 3600 \<and> (plat \<noteq> lat r \<or> plon \<noteq> lon r)"

text \<open>The \<open>SELECT\<close> list of \<open>trip_segments\<close>.\<close>

definition segment_select :: "source_server \<Rightarrow> trip_data_row \<Rightarrow> real \<Rightarrow> real \<Rightarrow> real \<Rightarrow> trip_segment" where
  "segment_select srv r pt plat plon =
     \<lparr>bike_id = bike_id r, provider_id = provider_id r,
      start_lat = plat, start_lon = plon, end_lat = lat r, end_lon = lon r,
      end_time = local_time r, start_time = pt,
      duration_minutes = divide_60 srv (local_time r - pt),
      distance_km = haversine_km plat plon (lat r) (lon r)\<rparr>"

text \<open>
  \<open>prev_time IS NOT NULL\<close> drops the first row of every partition; the three \<open>LAG\<close>
  columns of a row are NULL together.
\<close>

definition segment_of :: "source_server \<Rightarrow> trip_data_row \<Rightarrow> trip_segment list" where
  "segment_of srv r =
     (case (prev_time r, prev_lat r, prev_lon r) of
        (Some pt, Some plat, Some plon) \<Rightarrow>
          if segment_where r pt plat plon then [segment_select srv r pt plat plon] else []
      | _ \<Rightarrow> [])"

definition trip_segments :: "source_server \<Rightarrow> trip_data_row list \<Rightarrow> trip_segment list" where
  "trip_segments srv rows = concat (map (segment_of srv) rows)"

text \<open>\<open>GROUP BY bike_id, provider_id\<close>\<close>

definition group_key :: "trip_segment \<Rightarrow> string \<times> string" where
  "group_key s = (bike_id s, provider_id s)"

text \<open>\<open>MIN\<close> and \<open>MAX\<close> over a group \<open>x # xs\<close>; a group of \<open>GROUP BY\<close> has a row.\<close>

definition sql_min :: "real \<Rightarrow> real list \<Rightarrow> real" where
  "sql_min x xs = fold min xs x"

definition sql_max :: "real \<Rightarrow> real list \<Rightarrow> real" where
  "sql_max x xs = fold max xs x"

text \<open>The \<open>SELECT\<close> list of \<open>trip_aggregates\<close> on one group.\<close>

fun aggregate :: "trip_segment list \<Rightarrow> trip list" where
  "aggregate [] = []"
| "aggregate (s # ss) =
     [\<lparr>bike_id = bike_id s, provider_id = provider_id s,
       start_lat = sql_min (start_lat s) (map start_lat ss),
       start_lon = sql_min (start_lon s) (map start_lon ss),
       end_lat = sql_max (end_lat s) (map end_lat ss),
       end_lon = sql_max (end_lon s) (map end_lon ss),
       trip_start = sql_min (start_time s) (map start_time ss),
       trip_end = sql_max (end_time s) (map end_time ss),
       total_duration = sum_list (map duration_minutes (s # ss)),
       total_distance = sum_list (map distance_km (s # ss)),
       segment_count = int (length (s # ss))\<rparr>]"

definition trip_aggregates :: "trip_segment list \<Rightarrow> trip list" where
  "trip_aggregates segs =
     concat (map (\<lambda>k. aggregate (filter (\<lambda>s. group_key s = k) segs)) (remdups (map group_key segs)))"

text \<open>The \<open>WHERE\<close> clause of the final \<open>SELECT\<close>.\<close>

definition final_where :: "trip \<Rightarrow> bool" where
  "final_where t \<longleftrightarrow>
     total_duration t \<ge> 1 \<and> total_duration t \<le> 60 \<and> total_distance t > 0 \<and> segment_count t \<ge> 2"

text \<open>The whole query, \<open>ORDER BY trip_start\<close>.\<close>

definition extract_query :: "source_server \<Rightarrow> bike_status list \<Rightarrow> real \<Rightarrow> real \<Rightarrow> trip list" where
  "extract_query srv tbl start_date end_date =
     sort_key trip_start
       (filter final_where
         (trip_aggregates (trip_segments srv (trip_data srv tbl start_date end_date))))"

subsection \<open>The destination table and the upsert\<close>

text \<open>
  The destination database: the committed rows of \<open>all_trips\<close> and the last value of the
  sequence behind \<open>trip_id\<close>.
\<close>

record dest_db =
  all_trips :: "all_trips_row list"
  all_trips_trip_id_seq :: int

datatype dest_op = Execute_create_table | Execute_values nat | Commit

text \<open>
  An open connection to it: the rows as its transaction sees them (\<open>uncommitted\<close>), and
  what has been run on it so far. psycopg2 opens a transaction with the first statement
  and ends it at \<open>commit()\<close>; closing the connection discards what was not committed.
\<close>

record dest_conn = dest_db +
  uncommitted :: "all_trips_row list"
  executed :: "dest_op list"

definition connect :: "dest_db \<Rightarrow> dest_conn" where
  "connect db =
     \<lparr>all_trips = all_trips db, all_trips_trip_id_seq = all_trips_trip_id_seq db,
      uncommitted = all_trips db, executed = []\<rparr>"

definition commit :: "dest_conn \<Rightarrow> dest_conn" where
  "commit d = d\<lparr>all_trips := uncommitted d, executed := executed d @ [Commit]\<rparr>"

definition close :: "dest_conn \<Rightarrow> dest_db" where
  "close d = \<lparr>all_trips = all_trips d, all_trips_trip_id_seq = all_trips_trip_id_seq d\<rparr>"

text \<open>\<open>ON CONFLICT (bike_id, trip_start)\<close>: the stored row \<open>r\<close> has the key of the new row.\<close>

definition conflict :: "trip \<Rightarrow> all_trips_row \<Rightarrow> bool" where
  "conflict t r \<longleftrightarrow> bike_id r = bike_id t \<and> trip_start r = trip_start t"

text \<open>\<open>DO UPDATE SET ... = EXCLUDED. ...\<close>: the nine columns the statement lists.\<close>

definition do_update :: "trip \<Rightarrow> all_trips_row \<Rightarrow> all_trips_row" where
  "do_update t r =
     r\<lparr>provider_id := provider_id t, trip_end := trip_end t,
       start_lat := start_lat t, start_lon := start_lon t,
       end_lat := end_lat t, end_lon := end_lon t,
       total_duration := total_duration t, total_distance := total_distance t,
       segment_count := segment_count t\<rparr>"

text \<open>
  The row \<open>INSERT\<close> proposes: the eleven columns of the record, \<open>trip_id\<close> from its
  default \<open>nextval('all_trips_trip_id_seq')\<close>, NULL in the columns left out.
\<close>

definition insert_row :: "int \<Rightarrow> trip \<Rightarrow> all_trips_row" where
  "insert_row n t =
     \<lparr>bike_id = bike_id t, provider_id = provider_id t,
      start_lat = start_lat t, start_lon = start_lon t,
      end_lat = end_lat t, end_lon = end_lon t,
      trip_start = trip_start t, trip_end = trip_end t,
      total_duration = total_duration t, total_distance = total_distance t,
      segment_count = segment_count t,
      trip_id = n, municipality = None, canton = None, vehicle_type = None, city = None,
      temperature = None, humidity = None, aqi = None, pm25 = None\<rparr>"

text \<open>
  One record of \<open>insert_query\<close>. The default of \<open>trip_id\<close> is computed for the proposed
  row before the conflict is looked for, so the sequence moves on either path (and a
  sequence is not rolled back).
\<close>

definition upsert :: "trip \<Rightarrow> dest_conn \<Rightarrow> dest_conn" where
  "upsert t d =
     (let n = all_trips_trip_id_seq d + 1 in
      if list_ex (conflict t) (uncommitted d)
      then d\<lparr>all_trips_trip_id_seq := n,
             uncommitted := map (\<lambda>r. if conflict t r then do_update t r else r) (uncommitted d)\<rparr>
      else d\<lparr>all_trips_trip_id_seq := n,
             uncommitted := uncommitted d @ [insert_row n t]\<rparr>)"

text \<open>The key of \<open>ON CONFLICT\<close> of a proposed row.\<close>

definition conflict_key :: "trip \<Rightarrow> string \<times> real" where
  "conflict_key t = (bike_id t, trip_start t)"

text \<open>
  One \<open>INSERT ... ON CONFLICT DO UPDATE\<close> statement with the rows \<open>page\<close>. The rows are
  proposed in order. A row whose key a row before it in the same statement already has
  would update that row a second time: the server raises, and the statement has written
  nothing. The rows proposed until then have taken their values from the sequence.
\<close>

definition cardinality_violation :: string where
  "cardinality_violation = ''ON CONFLICT DO UPDATE command cannot affect row a second time''"

fun proposed_rows :: "(string \<times> real) list \<Rightarrow> trip list \<Rightarrow> nat" where
  "proposed_rows seen [] = 0"
| "proposed_rows seen (t # ts) =
     (if conflict_key t \<in> set seen then 1 else Suc (proposed_rows (conflict_key t # seen) ts))"

definition insert_statement :: "trip list \<Rightarrow> dest_conn \<Rightarrow> string option \<times> dest_conn" where
  "insert_statement page d =
     (if distinct (map conflict_key page) then (None, fold upsert page d)
      else (Some cardinality_violation,
            d\<lparr>all_trips_trip_id_seq := all_trips_trip_id_seq d + int (proposed_rows [] page)\<rparr>))"

subsection \<open>The Python around the two statements\<close>

text \<open>
  The connection parameters \<open>SOURCE_DB_CONFIG\<close> and \<open>DEST_DB_CONFIG\<close>, read from the
  environment of the process.
\<close>

record db_config =
  dbname :: string
  user :: string
  password :: string
  host :: string
  port :: string
  connect_timeout :: nat

text \<open>
  What the two servers and the driver raise during one run, apart from what the data
  itself causes. Every call into psycopg2 can raise (a refused connection, a failed
  authentication, a timeout, a lost connection); the run is a function of which calls do,
  given here with \<open>str(e)\<close> of the exception. The message of a failed connection is the
  driver's and may depend on the parameters it was given.
  \<open>insert_error = Some (k, e)\<close>: statement number \<open>k\<close> (from 0) of \<open>execute_values\<close>
  raises \<open>e\<close>, with the statements before it run in the open transaction.
\<close>

record faults =
  connect_source_error :: "db_config \<Rightarrow> string option"
  connect_dest_error :: "db_config \<Rightarrow> string option"
  create_table_error :: "string option"
  extract_error :: "string option"
  insert_error :: "(nat \<times> string) option"
  commit_error :: "string option"

text \<open>
  A function that can raise returns the message of the exception (\<open>None\<close> when it returns
  normally) and the connection as it leaves it.
\<close>

definition create_destination_table :: "faults \<Rightarrow> dest_conn \<Rightarrow> string option \<times> dest_conn" where
  "create_destination_table f dest_conn =
     (case create_table_error f of
        Some e \<Rightarrow> (Some e, dest_conn)
      | None \<Rightarrow> (None, commit (dest_conn\<lparr>executed := executed dest_conn @ [Execute_create_table]\<rparr>)))"

text \<open>
  \<open>psycopg2.extras.execute_values\<close> is called without \<open>page_size\<close>, so with its default
  of 100: the records go to the server in pages of at most 100, one \<open>INSERT\<close> statement
  per page, all in the transaction of the connection.
\<close>

definition page_size :: nat where
  "page_size = 100"

function pages :: "'a list \<Rightarrow> 'a list list" where
  "pages records =
     (if records = [] then [] else take page_size records # pages (drop page_size records))"
  by pat_completeness auto
termination
  by (relation "measure length") (auto simp: page_size_def)

declare pages.simps [simp del]

definition execute_statement :: "faults \<Rightarrow> nat \<Rightarrow> trip list \<Rightarrow> dest_conn \<Rightarrow> string option \<times> dest_conn" where
  "execute_statement f i page d =
     (case insert_error f of
        None \<Rightarrow> insert_statement page d
      | Some (k, e) \<Rightarrow> if k = i then (Some e, d) else insert_statement page d)"

fun run_statements :: "faults \<Rightarrow> nat \<Rightarrow> trip list list \<Rightarrow> dest_conn \<Rightarrow> string option \<times> dest_conn" where
  "run_statements f i [] d = (None, d)"
| "run_statements f i (page # ps) d =
     (case execute_statement f i page d of
        (Some e, d') \<Rightarrow> (Some e, d')
      | (None, d') \<Rightarrow> run_statements f (Suc i) ps d')"

definition execute_values :: "faults \<Rightarrow> dest_conn \<Rightarrow> trip list \<Rightarrow> string option \<times> dest_conn" where
  "execute_values f dest_cursor records =
     (case run_statements f 0 (pages records) dest_cursor of
        (raised, d) \<Rightarrow>
          (raised, d\<lparr>executed := executed dest_cursor @ [Execute_values (length records)]\<rparr>))"

text \<open>
  \<open>source_conn\<close> is the table \<open>bike_status\<close> of the source database. The \<open>except\<close> clause
  logs and raises again, so an exception leaves the function as it was raised.
\<close>

definition extract_and_load_data ::
  "faults \<Rightarrow> source_server \<Rightarrow> bike_status list \<Rightarrow> dest_conn \<Rightarrow> real \<Rightarrow> real \<Rightarrow> string option \<times> dest_conn" where
  "extract_and_load_data f srv source_conn dest_conn start_date end_date =
     (case extract_error f of
        Some e \<Rightarrow> (Some e, dest_conn)
      | None \<Rightarrow>
          let records = extract_query srv source_conn start_date end_date in
          if records = [] then (None, dest_conn)
          else
            (case execute_values f dest_conn records of
               (Some e, d) \<Rightarrow> (Some e, d)
             | (None, d) \<Rightarrow>
                 (case commit_error f of
                    Some e \<Rightarrow> (Some e, d)
                  | None \<Rightarrow> (None, commit d))))"

record response =
  statusCode :: int
  body :: string

definition error_response :: "string \<Rightarrow> response" where
  "error_response e = \<lparr>statusCode = 500, body = ''Error: '' @ e\<rparr>"

definition success_response :: response where
  "success_response = \<lparr>statusCode = 200, body = ''Data warehouse update completed successfully''\<rparr>"

text \<open>
  The process of the handler: the two configurations, the source server, and the clock.
  \<open>now\<close> is \<open>zurich_tz.localize(datetime.now())\<close> as the query compares it with
  \<open>timestamp\<close>.
\<close>

record process =
  SOURCE_DB_CONFIG :: db_config
  DEST_DB_CONFIG :: db_config
  server :: source_server
  now :: real

text \<open>
  \<open>timedelta(days=1)\<close> is 86400 seconds. \<open>database_connection(config)\<close> connects with the
  configuration, or raises what \<open>psycopg2.connect\<close> raised. The handler returns the
  response and leaves the destination database as the closed connection left it.
\<close>

definition lambda_handler ::
  "faults \<Rightarrow> process \<Rightarrow> bike_status list \<Rightarrow> dest_db \<Rightarrow> response \<times> dest_db" where
  "lambda_handler f p source_db dest =
     (let end_date = now p; start_date = end_date - 86400 in
      case connect_source_error f (SOURCE_DB_CONFIG p) of
        Some e \<Rightarrow> (error_response e, dest)
      | None \<Rightarrow>
          (case connect_dest_error f (DEST_DB_CONFIG p) of
             Some e \<Rightarrow> (error_response e, dest)
           | None \<Rightarrow>
               (case create_destination_table f (connect dest) of
                  (Some e, d) \<Rightarrow> (error_response e, close d)
                | (None, d) \<Rightarrow>
                    (case extract_and_load_data f (server p) source_db d start_date end_date of
                       (Some e, d') \<Rightarrow> (error_response e, close d')
                     | (None, d') \<Rightarrow> (success_response, close d')))))"

subsection \<open>The partition into runs that section 4.2 of the specification describes\<close>

text \<open>
  Used only to compare with \<open>trip_aggregates\<close>: the rows of \<open>trip_data\<close> are read in
  order, a row that passes the \<open>WHERE\<close> clause of \<open>trip_segments\<close> extends the current
  run, any other row ends it.
\<close>

fun spec_runs :: "source_server \<Rightarrow> trip_segment list \<Rightarrow> trip_data_row list \<Rightarrow> trip_segment list list" where
  "spec_runs srv cur [] = (if cur = [] then [] else [rev cur])"
| "spec_runs srv cur (r # rs) =
     (case segment_of srv r of
        [] \<Rightarrow> (if cur = [] then [] else [rev cur]) @ spec_runs srv [] rs
      | s # _ \<Rightarrow> spec_runs srv (s # cur) rs)"

definition spec_trip_candidates :: "source_server \<Rightarrow> trip_data_row list \<Rightarrow> trip_segment list list" where
  "spec_trip_candidates srv rows = spec_runs srv [] rows"

subsection \<open>Example data\<close>

text \<open>
  The division of PostgreSQL 14 and later for seconds from 1 up to 9999, which covers what
  the \<open>WHERE\<close> clause of \<open>trip_segments\<close> lets through: the quotient in \<open>numeric\<close>, rounded
  to 16 decimal places, and to 20 when the seconds are below 61.
\<close>

definition numeric_div_60 :: "real \<Rightarrow> real" where
  "numeric_div_60 x =
     (if x < 61 then real_of_int (round (x / 60 * 10 ^ 20)) / 10 ^ 20
      else real_of_int (round (x / 60 * 10 ^ 16)) / 10 ^ 16)"

text \<open>A server on which Zurich is one hour ahead of UTC throughout (winter time).\<close>

definition cet :: source_server where
  "cet = \<lparr>at_zurich = (\<lambda>t. t + 3600), divide_60 = numeric_div_60\<rparr>"

text \<open>
  A server with the time zone database of 27 October 2024: summer time, two hours ahead
  of UTC, ends at 01:00 UTC (epoch 1729990800), when the clocks in Zurich go back from
  03:00 to 02:00.
\<close>

definition zurich_2024 :: source_server where
  "zurich_2024 =
     \<lparr>at_zurich = (\<lambda>t. if t < 1729990800 then t + 7200 else t + 3600),
      divide_60 = numeric_div_60\<rparr>"

text \<open>
  A vehicle riding north, with pings after 0, 10, 25 and 40 minutes, and a second vehicle
  with two pings 90 minutes apart.
\<close>

definition north :: "bike_status list" where
  "north =
     [\<lparr>bike_id = ''V1'', provider_id = ''P'', lat = 47, lon = 8, timestamp = 0\<rparr>,
      \<lparr>bike_id = ''V2'', provider_id = ''P'', lat = 46, lon = 7, timestamp = 0\<rparr>,
      \<lparr>bike_id = ''V1'', provider_id = ''P'', lat = 47.01, lon = 8, timestamp = 600\<rparr>,
      \<lparr>bike_id = ''V1'', provider_id = ''P'', lat = 47.02, lon = 8, timestamp = 1500\<rparr>,
      \<lparr>bike_id = ''V1'', provider_id = ''P'', lat = 47.03, lon = 8, timestamp = 2400\<rparr>,
      \<lparr>bike_id = ''V2'', provider_id = ''P'', lat = 46.01, lon = 7, timestamp = 5400\<rparr>]"

text \<open>A vehicle riding south, with pings after 0, 10 and 20 minutes.\<close>

definition south :: "bike_status list" where
  "south =
     [\<lparr>bike_id = ''V1'', provider_id = ''P'', lat = 47.03, lon = 8, timestamp = 0\<rparr>,
      \<lparr>bike_id = ''V1'', provider_id = ''P'', lat = 47.02, lon = 8, timestamp = 600\<rparr>,
      \<lparr>bike_id = ''V1'', provider_id = ''P'', lat = 47.01, lon = 8, timestamp = 1200\<rparr>]"

text \<open>
  A vehicle with two rides in one window: pings after 0, 10 and 20 minutes, a gap of two
  hours, and pings 10 and 20 minutes after the gap.
\<close>

definition two_rides :: "bike_status list" where
  "two_rides =
     [\<lparr>bike_id = ''V1'', provider_id = ''P'', lat = 47, lon = 8, timestamp = 0\<rparr>,
      \<lparr>bike_id = ''V1'', provider_id = ''P'', lat = 47.01, lon = 8, timestamp = 600\<rparr>,
      \<lparr>bike_id = ''V1'', provider_id = ''P'', lat = 47.02, lon = 8, timestamp = 1200\<rparr>,
      \<lparr>bike_id = ''V1'', provider_id = ''P'', lat = 47.03, lon = 8, timestamp = 8400\<rparr>,
      \<lparr>bike_id = ''V1'', provider_id = ''P'', lat = 47.04, lon = 8, timestamp = 9000\<rparr>,
      \<lparr>bike_id = ''V1'', provider_id = ''P'', lat = 47.05, lon = 8, timestamp = 9600\<rparr>]"


text \<open>A vehicle with two pings 90 minutes apart, at different positions.\<close>

definition gap :: "bike_status list" where
  "gap =
     [\<lparr>bike_id = ''V2'', provider_id = ''P'', lat = 46, lon = 7, timestamp = 0\<rparr>,
      \<lparr>bike_id = ''V2'', provider_id = ''P'', lat = 46.01, lon = 7, timestamp = 5400\<rparr>]"

text \<open>Two vehicles with one ride each.\<close>

definition two_vehicles :: "bike_status list" where
  "two_vehicles =
     [\<lparr>bike_id = ''V1'', provider_id = ''P'', lat = 47, lon = 8, timestamp = 0\<rparr>,
      \<lparr>bike_id = ''V3'', provider_id = ''P'', lat = 46.5, lon = 7.5, timestamp = 300\<rparr>,
      \<lparr>bike_id = ''V1'', provider_id = ''P'', lat = 47.01, lon = 8, timestamp = 600\<rparr>,
      \<lparr>bike_id = ''V3'', provider_id = ''P'', lat = 46.51, lon = 7.5, timestamp = 900\<rparr>,
      \<lparr>bike_id = ''V1'', provider_id = ''P'', lat = 47.02, lon = 8, timestamp = 1200\<rparr>,
      \<lparr>bike_id = ''V3'', provider_id = ''P'', lat = 46.52, lon = 7.5, timestamp = 1500\<rparr>]"

text \<open>
  The night of 27 October 2024 (00:00 UTC is epoch 1729987200). Vehicle V1 has pings at
  00:30 and 01:40 UTC, 70 minutes apart; vehicle V2 at 00:40 and 01:20 UTC, 40 minutes
  apart.
\<close>

definition fall_back :: "bike_status list" where
  "fall_back =
     [\<lparr>bike_id = ''V1'', provider_id = ''P'', lat = 47, lon = 8, timestamp = 1729989000\<rparr>,
      \<lparr>bike_id = ''V2'', provider_id = ''P'', lat = 46, lon = 7, timestamp = 1729989600\<rparr>,
      \<lparr>bike_id = ''V2'', provider_id = ''P'', lat = 46.01, lon = 7, timestamp = 1729992000\<rparr>,
      \<lparr>bike_id = ''V1'', provider_id = ''P'', lat = 47.01, lon = 8, timestamp = 1729993200\<rparr>]"

text \<open>
  The same night: one vehicle reported by provider P at 00:30, 00:40 and 00:50 UTC and by
  provider Q at 01:30, 01:40 and 01:50 UTC. Both rides start at 02:30 on the clocks in
  Zurich.
\<close>

definition provider_change :: "bike_status list" where
  "provider_change =
     [\<lparr>bike_id = ''V1'', provider_id = ''P'', lat = 47, lon = 8, timestamp = 1729989000\<rparr>,
      \<lparr>bike_id = ''V1'', provider_id = ''P'', lat = 47.01, lon = 8, timestamp = 1729989600\<rparr>,
      \<lparr>bike_id = ''V1'', provider_id = ''P'', lat = 47.02, lon = 8, timestamp = 1729990200\<rparr>,
      \<lparr>bike_id = ''V1'', provider_id = ''Q'', lat = 47.03, lon = 8, timestamp = 1729992600\<rparr>,
      \<lparr>bike_id = ''V1'', provider_id = ''Q'', lat = 47.04, lon = 8, timestamp = 1729993200\<rparr>,
      \<lparr>bike_id = ''V1'', provider_id = ''Q'', lat = 47.05, lon = 8, timestamp = 1729993800\<rparr>]"


definition stored_row :: all_trips_row where
  "stored_row =
     \<lparr>bike_id = ''V1'', provider_id = ''Q'',
      start_lat = 47, start_lon = 8, end_lat = 47.02, end_lon = 8,
      trip_start = 3600, trip_end = 5100,
      total_duration = 25, total_distance = 2.2, segment_count = 2,
      trip_id = 7, municipality = Some ''Bern'', canton = None, vehicle_type = None,
      city = None, temperature = None, humidity = None, aqi = None, pm25 = None\<rparr>"

definition empty_dest :: dest_db where
  "empty_dest = \<lparr>all_trips = [], all_trips_trip_id_seq = 0\<rparr>"

definition stored_dest :: dest_db where
  "stored_dest = \<lparr>all_trips = [stored_row], all_trips_trip_id_seq = 7\<rparr>"

text \<open>Two configurations, and the process of a run at the end of the first day.\<close>

definition source_config :: db_config where
  "source_config =
     \<lparr>dbname = ''bikes'', user = ''etl_reader'', password = ''s3cret'',
      host = ''source.example.org'', port = ''5432'', connect_timeout = 300\<rparr>"

definition dest_config :: db_config where
  "dest_config =
     \<lparr>dbname = ''warehouse'', user = ''etl_writer'', password = ''t0psecret'',
      host = ''dest.example.org'', port = ''5432'', connect_timeout = 300\<rparr>"

definition day_one :: process where
  "day_one =
     \<lparr>SOURCE_DB_CONFIG = source_config, DEST_DB_CONFIG = dest_config, server = cet, now = 86400\<rparr>"

text \<open>The process of a run at 00:00 UTC on 28 October 2024.\<close>

definition october_28 :: process where
  "october_28 =
     \<lparr>SOURCE_DB_CONFIG = source_config, DEST_DB_CONFIG = dest_config, server = zurich_2024,
      now = 1730073600\<rparr>"

text \<open>
  Runs in which no call raises, in which one call raises (the extraction statement, the
  first insert statement, the commit), and in which the source server refuses the
  password and the driver reports it with the name of the user.
\<close>

definition no_faults :: faults where
  "no_faults =
     \<lparr>connect_source_error = (\<lambda>c. None), connect_dest_error = (\<lambda>c. None),
      create_table_error = None, extract_error = None, insert_error = None,
      commit_error = None\<rparr>"

definition extract_fails :: faults where
  "extract_fails = no_faults\<lparr>extract_error := Some ''server closed the connection unexpectedly''\<rparr>"

definition insert_fails :: faults where
  "insert_fails =
     no_faults\<lparr>insert_error := Some (0, ''server closed the connection unexpectedly'')\<rparr>"

definition commit_fails :: faults where
  "commit_fails = no_faults\<lparr>commit_error := Some ''server closed the connection unexpectedly''\<rparr>"

definition authentication_fails :: faults where
  "authentication_fails =
     no_faults\<lparr>connect_source_error :=
       (\<lambda>c. Some (''FATAL:  password authentication failed for user '' @ user c))\<rparr>"

text \<open>
  Three rows of \<open>trip_data\<close>: a ping 60 minutes after the one before it, one 61 minutes
  after, and one 10 minutes after at the same coordinates.
\<close>

definition pair_60 :: trip_data_row where
  "pair_60 =
     \<lparr>bike_id = ''V1'', provider_id = ''P'', lat = 47.01, lon = 8, timestamp = 3600,
      local_time = 7200, prev_time = Some 3600, prev_lat = Some 47, prev_lon = Some 8\<rparr>"

definition pair_61 :: trip_data_row where
  "pair_61 =
     \<lparr>bike_id = ''V1'', provider_id = ''P'', lat = 47.01, lon = 8, timestamp = 3660,
      local_time = 7260, prev_time = Some 3600, prev_lat = Some 47, prev_lon = Some 8\<rparr>"

definition pair_still :: trip_data_row where
  "pair_still =
     \<lparr>bike_id = ''V1'', provider_id = ''P'', lat = 47, lon = 8, timestamp = 600,
      local_time = 4200, prev_time = Some 3600, prev_lat = Some 47, prev_lon = Some 8\<rparr>"

section \<open>Properties\<close>

subsection \<open>The distance expression\<close>

lemma haversine_arg_commute: "haversine_arg la lo plat plon = haversine_arg plat plon la lo"
proof -
  have a: "sin (radians (plat - la) / 2) = - sin (radians (la - plat) / 2)"
    by (simp add: radians_def flip: sin_minus) (simp add: algebra_simps diff_divide_distrib)
  have b: "sin (radians (plon - lo) / 2) = - sin (radians (lo - plon) / 2)"
    by (simp add: radians_def flip: sin_minus) (simp add: algebra_simps diff_divide_distrib)
  show ?thesis
    unfolding haversine_arg_def a b by (simp add: mult.commute)
qed

lemma haversine_arg_same: "haversine_arg la lo la lo = 0"
  by (simp add: haversine_arg_def radians_def)

lemma haversine_arg_half:
  "haversine_arg plat plon la lo =
     (1 - (1 - (sin (radians (lo - plon) / 2))\<^sup>2) * cos (radians (la - plat))
        + (sin (radians (lo - plon) / 2))\<^sup>2 * cos (radians (la + plat))) / 2"
proof -
  have s: "(sin (radians (la - plat) / 2))\<^sup>2 = (1 - cos (radians (la - plat))) / 2"
    using cos_double_sin [of "radians (la - plat) / 2"] by simp
  have d: "radians la - radians plat = radians (la - plat)" "radians la + radians plat = radians (la + plat)"
    by (simp_all add: radians_def algebra_simps diff_divide_distrib add_divide_distrib)
  have c: "cos (radians plat) * cos (radians la) = (cos (radians (la - plat)) + cos (radians (la + plat))) / 2"
    using cos_times_cos [of "radians la" "radians plat"] by (simp add: d mult.commute)
  show ?thesis
    unfolding haversine_arg_def s c by (simp add: field_simps)
qed

lemma haversine_arg_range: "0 \<le> haversine_arg plat plon la lo \<and> haversine_arg plat plon la lo \<le> 1"
proof -
  define s where "s = (sin (radians (lo - plon) / 2))\<^sup>2"
  define c where "c = cos (radians (la - plat))"
  define c' where "c' = cos (radians (la + plat))"
  have s01: "0 \<le> s" "s \<le> 1" by (simp_all add: s_def abs_square_le_1)
  have cb: "- 1 \<le> c" "c \<le> 1" "- 1 \<le> c'" "c' \<le> 1" by (simp_all add: c_def c'_def)
  have h: "haversine_arg plat plon la lo = (1 - (1 - s) * c + s * c') / 2"
    unfolding s_def c_def c'_def by (rule haversine_arg_half)
  have a: "(1 - s) * c \<le> (1 - s) * 1" "(1 - s) * (- 1) \<le> (1 - s) * c"
    by (rule mult_left_mono; use s01 cb in simp)+
  have b: "s * c' \<le> s * 1" "s * (- 1) \<le> s * c'"
    by (rule mult_left_mono; use s01 cb in simp)+
  show ?thesis unfolding h using a b by simp
qed

lemma haversine_km_nonneg: "0 \<le> haversine_km plat plon la lo"
  using haversine_arg_range [of plat plon la lo]
  by (simp add: haversine_km_def arcsin_nonneg real_le_rsqrt)

lemma haversine_km_pos:
  assumes "\<bar>la - plat\<bar> < 360" "la \<noteq> plat"
  shows "0 < haversine_km plat lo la lo"
proof -
  let ?x = "radians (la - plat) / 2"
  have "(la - plat) * pi < 360 * pi" "(- 360) * pi < (la - plat) * pi"
    by (rule mult_strict_right_mono; use assms in \<open>simp add: abs_less_iff\<close>)+
  then have x: "- pi < ?x" "?x < pi" "?x \<noteq> 0"
    using assms by (simp_all add: radians_def)
  have "sin ?x \<noteq> 0" using sin_eq_0_pi [of ?x] x by blast
  moreover have "radians 0 = 0" by (simp add: radians_def)
  ultimately have h: "0 < haversine_arg plat lo la lo" by (simp add: haversine_arg_def)
  have h1: "haversine_arg plat lo la lo \<le> 1" using haversine_arg_range by blast
  have "arcsin 0 < arcsin (sqrt (haversine_arg plat lo la lo))"
    by (rule arcsin_less_arcsin) (use h h1 in \<open>simp_all add: real_le_rsqrt\<close>)
  then show ?thesis by (simp add: haversine_km_def)
qed

text \<open>
  C8. The great-circle distance is symmetric in its two points, and the distance from a
  point to itself is 0.
\<close>

theorem haversine_km_symmetric_zero:
  "haversine_km lat1 lon1 lat2 lon2 = haversine_km lat2 lon2 lat1 lon1 \<and>
   haversine_km lat1 lon1 lat1 lon1 = 0"
  by (simp add: haversine_km_def haversine_arg_same haversine_arg_commute [of lat1 lon1 lat2 lon2])

subsection \<open>Classification of a pair of pings\<close>

text \<open>
  The \<open>WHERE\<close> clause of \<open>trip_segments\<close> on a row with a predecessor: the row becomes a
  segment exactly when the seconds between the two local times lie in the closed interval
  from 60 to 3600 and the two positions differ in latitude or longitude.
\<close>

lemma segment_of_local_time:
  assumes "prev_time r = Some pt" "prev_lat r = Some plat" "prev_lon r = Some plon"
  shows "segment_of srv r =
           (if 60 \<le> local_time r - pt \<and> local_time r - pt \<le> 3600 \<and>
               (plat \<noteq> lat r \<or> plon \<noteq> lon r)
            then [segment_select srv r pt plat plon] else [])"
  using assms by (simp add: segment_of_def segment_where_def)

lemma numeric_div_60_minutes [simp]:
  "numeric_div_60 600 = 10" "numeric_div_60 900 = 15" "numeric_div_60 3600 = 60"
  "numeric_div_60 3660 = 61"
  by (simp_all add: numeric_div_60_def)

lemma segment_of_examples:
  "segment_of cet pair_60 = [segment_select cet pair_60 3600 47 8]"
  "duration_minutes (segment_select cet pair_60 3600 47 8) = 60"
  "segment_of cet pair_61 = []"
  "duration_minutes (segment_select cet pair_61 3600 47 8) = 61"
  "segment_of cet pair_still = []"
  by (simp_all add: segment_of_def segment_where_def segment_select_def cet_def
      pair_60_def pair_61_def pair_still_def)

lemmas query_defs =
  trip_data_def partitions_def in_window_def trip_segments_def segment_of_def segment_where_def
  segment_select_def trip_aggregates_def group_key_def sql_min_def sql_max_def cet_def
  zurich_2024_def

text \<open>
  C4 at the table \<open>fall_back\<close>, in the night in which summer time ends. The seconds the
  query compares are the difference of the two wall-clock times in Zurich, not the time
  between the two pings. The pings of V1 are 70 minutes apart and 10 minutes apart on
  the clock: the pair is a segment, of 10 minutes. The pings of V2 are 40 minutes apart,
  at different positions, and the later one is 20 minutes earlier on the clock: the
  pair is no segment.
\<close>

theorem fall_back_classification:
  "map (\<lambda>r. (bike_id r, timestamp r)) fall_back =
     [(''V1'', 1729989000), (''V2'', 1729989600), (''V2'', 1729992000), (''V1'', 1729993200)] \<and>
   (1729993200 - 1729989000) / 60 = (70::real) \<and>
   (1729992000 - 1729989600) / 60 = (40::real) \<and>
   map (\<lambda>r. (bike_id r, prev_time r, local_time r))
     (trip_data zurich_2024 fall_back 1729987200 1730073600) =
     [(''V2'', None, 1729996800), (''V2'', Some 1729996800, 1729995600),
      (''V1'', None, 1729996200), (''V1'', Some 1729996200, 1729996800)] \<and>
   map (\<lambda>s. (bike_id s, start_time s, end_time s, duration_minutes s))
     (trip_segments zurich_2024 (trip_data zurich_2024 fall_back 1729987200 1730073600)) =
     [(''V1'', 1729996200, 1729996800, 10)]"
  by (simp add: query_defs fall_back_def)

subsection \<open>The upsert\<close>

lemma conflict_do_update [simp]: "conflict t (do_update t r) = conflict t r"
  by (simp add: conflict_def do_update_def)

lemma do_update_idem [simp]: "do_update t (do_update t r) = do_update t r"
  by (simp add: do_update_def)

lemma conflict_insert_row [simp]: "conflict t (insert_row n t)"
  by (simp add: conflict_def insert_row_def)

lemma do_update_insert_row [simp]: "do_update t (insert_row n t) = insert_row n t"
  by (simp add: do_update_def insert_row_def)
















subsection \<open>The final filter and the load\<close>

text \<open>The query on the table \<open>north\<close>: one trip of three segments for V1, none for V2.\<close>

lemma north_query:
  "extract_query cet north 0 86400 =
     [\<lparr>bike_id = ''V1'', provider_id = ''P'', start_lat = 47, start_lon = 8,
        end_lat = 47.03, end_lon = 8, trip_start = 3600, trip_end = 6000, total_duration = 40,
        total_distance =
          haversine_km 47 8 47.01 8 + (haversine_km 47.01 8 47.02 8 + haversine_km 47.02 8 47.03 8),
        segment_count = 3\<rparr>]"
  by (simp add: extract_query_def query_defs north_def final_where_def haversine_km_pos add_pos_pos)












text \<open>The statements of \<open>execute_values\<close>.\<close>

lemma executed_upsert [simp]: "executed (upsert t d) = executed d"
  by (simp add: upsert_def Let_def)

lemma executed_fold_upsert [simp]: "executed (fold upsert rs d) = executed d"
  by (induction rs arbitrary: d) simp_all

lemma all_trips_upsert [simp]: "all_trips (upsert t d) = all_trips d"
  by (simp add: upsert_def Let_def)

lemma all_trips_fold_upsert [simp]: "all_trips (fold upsert rs d) = all_trips d"
  by (induction rs arbitrary: d) simp_all

lemma all_trips_commit [simp]: "all_trips (commit d) = uncommitted d"
  by (simp add: commit_def)

lemma execute_statement_returns_iff:
  "fst (execute_statement f i page d) = None \<longleftrightarrow>
     (\<forall>e. insert_error f \<noteq> Some (i, e)) \<and> distinct (map conflict_key page)"
  by (auto simp: execute_statement_def insert_statement_def split: option.splits)

lemma execute_statement_None:
  "fst (execute_statement f i page d) = None \<Longrightarrow>
   snd (execute_statement f i page d) = fold upsert page d"
  by (auto simp: execute_statement_def insert_statement_def split: option.splits if_splits)

lemma execute_statement_frame [simp]:
  "all_trips (snd (execute_statement f i page d)) = all_trips d"
  "executed (snd (execute_statement f i page d)) = executed d"
  by (auto simp: execute_statement_def insert_statement_def split: option.splits)

lemma run_statements_Cons:
  "run_statements f i (page # ps) d =
     (if fst (execute_statement f i page d) = None
      then run_statements f (Suc i) ps (snd (execute_statement f i page d))
      else execute_statement f i page d)"
  by (cases "execute_statement f i page d") (auto split: option.splits)

lemma run_statements_frame [simp]:
  "all_trips (snd (run_statements f i ps d)) = all_trips d"
  "executed (snd (run_statements f i ps d)) = executed d"
  by (induction ps arbitrary: i d) (simp_all add: run_statements_Cons del: run_statements.simps(2))

lemma run_statements_None:
  "fst (run_statements f i ps d) = None \<Longrightarrow>
   snd (run_statements f i ps d) = fold upsert (concat ps) d"
  by (induction ps arbitrary: i d)
    (simp_all add: run_statements_Cons execute_statement_None del: run_statements.simps(2)
      split: if_splits)

lemma run_statements_returns_iff:
  "fst (run_statements f i ps d) = None \<longleftrightarrow>
     (\<forall>j < length ps. (\<forall>e. insert_error f \<noteq> Some (i + j, e)) \<and>
        distinct (map conflict_key (ps ! j)))"
proof (induction ps arbitrary: i d)
  case Nil
  then show ?case by simp
next
  case (Cons page ps)
  have "(\<forall>j < length (page # ps). (\<forall>e. insert_error f \<noteq> Some (i + j, e)) \<and>
          distinct (map conflict_key ((page # ps) ! j))) \<longleftrightarrow>
        ((\<forall>e. insert_error f \<noteq> Some (i, e)) \<and> distinct (map conflict_key page)) \<and>
        (\<forall>j < length ps. (\<forall>e. insert_error f \<noteq> Some (Suc i + j, e)) \<and>
          distinct (map conflict_key (ps ! j)))"
    by (simp add: All_less_Suc2)
  moreover have "fst (run_statements f i (page # ps) d) = None \<longleftrightarrow>
      fst (execute_statement f i page d) = None \<and>
      fst (run_statements f (Suc i) ps (snd (execute_statement f i page d))) = None"
    by (auto simp: run_statements_Cons simp del: run_statements.simps(2))
  ultimately show ?case
    using Cons.IH [of "Suc i" "snd (execute_statement f i page d)"]
      execute_statement_returns_iff [of f i page d]
    by blast
qed

lemma pages_Nil [simp]: "pages [] = []"
  by (simp add: pages.simps)

lemma pages_small: "rs \<noteq> [] \<Longrightarrow> length rs \<le> page_size \<Longrightarrow> pages rs = [rs]"
  by (subst pages.simps) simp

lemma concat_pages [simp]: "concat (pages rs) = rs"
  by (induction rs rule: pages.induct) (subst pages.simps, simp)

lemma distinct_pages:
  "distinct (map f rs) \<Longrightarrow> j < length (pages rs) \<Longrightarrow> distinct (map f (pages rs ! j))"
proof (induction rs arbitrary: j rule: pages.induct)
  case (1 records)
  show ?case
  proof (cases "records = []")
    case True
    with "1.prems" show ?thesis by simp
  next
    case False
    have p: "pages records = take page_size records # pages (drop page_size records)"
      by (subst pages.simps) (simp add: False)
    have a: "distinct (map f (take page_size records))" "distinct (map f (drop page_size records))"
      using "1.prems"(1) by (simp_all add: take_map [symmetric] drop_map [symmetric])
    show ?thesis
    proof (cases j)
      case 0
      with p a show ?thesis by simp
    next
      case (Suc k)
      with "1.prems"(2) p have "k < length (pages (drop page_size records))" by simp
      from "1.IH" [OF False a(2) this] Suc p show ?thesis by simp
    qed
  qed
qed

lemma execute_values_frame [simp]:
  "all_trips (snd (execute_values f d rs)) = all_trips d"
  "executed (snd (execute_values f d rs)) = executed d @ [Execute_values (length rs)]"
  using run_statements_frame [of f 0 "pages rs" d]
  by (cases "run_statements f 0 (pages rs) d"; simp add: execute_values_def)+

lemma execute_values_returns_iff:
  "fst (execute_values f d rs) = None \<longleftrightarrow>
     (\<forall>j < length (pages rs). (\<forall>e. insert_error f \<noteq> Some (j, e)) \<and>
        distinct (map conflict_key (pages rs ! j)))"
  using run_statements_returns_iff [of f 0 "pages rs" d]
  by (cases "run_statements f 0 (pages rs) d") (simp add: execute_values_def)

lemma execute_values_None:
  assumes "fst (execute_values f d rs) = None"
  shows "snd (execute_values f d rs) =
           (fold upsert rs d)\<lparr>executed := executed d @ [Execute_values (length rs)]\<rparr>"
proof -
  from assms have "fst (run_statements f 0 (pages rs) d) = None"
    by (cases "run_statements f 0 (pages rs) d") (simp add: execute_values_def)
  from run_statements_None [OF this] show ?thesis
    by (cases "run_statements f 0 (pages rs) d") (simp add: execute_values_def)
qed

lemma execute_values_returns:
  "insert_error f = None \<Longrightarrow> distinct (map conflict_key rs) \<Longrightarrow>
   fst (execute_values f d rs) = None"
  by (simp add: execute_values_returns_iff distinct_pages)

lemma extract_and_load_data_cases:
  "extract_and_load_data f srv src d s e =
     (case extract_error f of
        Some x \<Rightarrow> (Some x, d)
      | None \<Rightarrow>
          if extract_query srv src s e = [] then (None, d)
          else if fst (execute_values f d (extract_query srv src s e)) \<noteq> None
          then execute_values f d (extract_query srv src s e)
          else
            (case commit_error f of
               Some x \<Rightarrow> (Some x, snd (execute_values f d (extract_query srv src s e)))
             | None \<Rightarrow> (None, commit (snd (execute_values f d (extract_query srv src s e))))))"
  by (cases "execute_values f d (extract_query srv src s e)")
    (auto simp: extract_and_load_data_def Let_def split: option.splits)

lemma extract_and_load_data_returns:
  assumes "fst (extract_and_load_data f srv src d s e) = None"
  shows "all_trips (snd (extract_and_load_data f srv src d s e)) =
           (if extract_query srv src s e = [] then all_trips d
            else uncommitted (fold upsert (extract_query srv src s e) d))"
  using assms
  by (auto simp: extract_and_load_data_cases execute_values_None split: option.splits if_splits)

lemma extract_and_load_data_no_faults:
  assumes "extract_error f = None" "insert_error f = None" "commit_error f = None"
    "distinct (map conflict_key (extract_query srv src s e))"
  shows "fst (extract_and_load_data f srv src d s e) = None"
  using assms by (simp add: extract_and_load_data_cases execute_values_returns)


lemma north_load:
  "fst (extract_and_load_data no_faults cet north (connect stored_dest) 0 86400) = None"
  by (rule extract_and_load_data_no_faults) (simp_all add: no_faults_def north_query)



subsection \<open>The run: load, commit and response\<close>

lemma gap_query: "extract_query cet gap 0 86400 = []"
  by (simp add: extract_query_def query_defs gap_def)

lemma two_vehicles_query:
  "extract_query cet two_vehicles 0 86400 =
     [\<lparr>bike_id = ''V1'', provider_id = ''P'', start_lat = 47, start_lon = 8,
        end_lat = 47.02, end_lon = 8, trip_start = 3600, trip_end = 4800, total_duration = 20,
        total_distance = haversine_km 47 8 47.01 8 + haversine_km 47.01 8 47.02 8,
        segment_count = 2\<rparr>,
      \<lparr>bike_id = ''V3'', provider_id = ''P'', start_lat = 46.5, start_lon = 7.5,
        end_lat = 46.52, end_lon = 7.5, trip_start = 3900, trip_end = 5100, total_duration = 20,
        total_distance = haversine_km 46.5 7.5 46.51 7.5 + haversine_km 46.51 7.5 46.52 7.5,
        segment_count = 2\<rparr>]"
  by (simp add: extract_query_def query_defs two_vehicles_def final_where_def haversine_km_pos add_pos_pos)

lemma provider_change_query:
  "extract_query zurich_2024 provider_change 1729987200 1730073600 =
     [\<lparr>bike_id = ''V1'', provider_id = ''P'', start_lat = 47, start_lon = 8,
        end_lat = 47.02, end_lon = 8, trip_start = 1729996200, trip_end = 1729997400,
        total_duration = 20,
        total_distance = haversine_km 47 8 47.01 8 + haversine_km 47.01 8 47.02 8,
        segment_count = 2\<rparr>,
      \<lparr>bike_id = ''V1'', provider_id = ''Q'', start_lat = 47.03, start_lon = 8,
        end_lat = 47.05, end_lon = 8, trip_start = 1729996200, trip_end = 1729997400,
        total_duration = 20,
        total_distance = haversine_km 47.03 8 47.04 8 + haversine_km 47.04 8 47.05 8,
        segment_count = 2\<rparr>]"
  by (simp add: extract_query_def query_defs provider_change_def final_where_def haversine_km_pos
      add_pos_pos)

lemma close_connect [simp]: "close (connect db) = db"
  by (simp add: close_def connect_def)

lemma uncommitted_connect [simp]: "uncommitted (connect db) = all_trips db"
  by (simp add: connect_def)

lemma all_trips_connect [simp]: "all_trips (connect db) = all_trips db"
  by (simp add: connect_def)

lemma all_trips_close [simp]: "all_trips (close d) = all_trips d"
  by (simp add: close_def)

lemma create_destination_table_all_trips:
  "all_trips (snd (create_destination_table f d)) =
     (if create_table_error f = None then uncommitted d else all_trips d)"
  by (simp add: create_destination_table_def split: option.splits)

lemma create_destination_table_uncommitted [simp]:
  "uncommitted (snd (create_destination_table f d)) = uncommitted d"
  by (simp add: create_destination_table_def commit_def split: option.splits)

lemma create_destination_table_fst [simp]:
  "fst (create_destination_table f d) = create_table_error f"
  by (simp add: create_destination_table_def split: option.splits)

lemma extract_and_load_data_raises:
  assumes "fst (extract_and_load_data f srv src d s e) = Some err"
  shows "all_trips (snd (extract_and_load_data f srv src d s e)) = all_trips d \<and>
         (executed (snd (extract_and_load_data f srv src d s e)) = executed d \<or>
          (\<exists>k. executed (snd (extract_and_load_data f srv src d s e)) =
                 executed d @ [Execute_values k]))"
  using assms
  by (auto simp: extract_and_load_data_cases split: option.splits if_splits)

lemma response_neq [simp]: "error_response e \<noteq> success_response"
  by (simp add: error_response_def success_response_def)

lemma lambda_handler_cases:
  "lambda_handler f p src db =
     (case connect_source_error f (SOURCE_DB_CONFIG p) of
        Some e \<Rightarrow> (error_response e, db)
      | None \<Rightarrow>
          (case connect_dest_error f (DEST_DB_CONFIG p) of
             Some e \<Rightarrow> (error_response e, db)
           | None \<Rightarrow>
               (case create_table_error f of
                  Some e \<Rightarrow> (error_response e, db)
                | None \<Rightarrow>
                    (case fst (extract_and_load_data f (server p) src
                           (snd (create_destination_table f (connect db))) (now p - 86400) (now p)) of
                       Some e \<Rightarrow> (error_response e,
                           close (snd (extract_and_load_data f (server p) src
                             (snd (create_destination_table f (connect db))) (now p - 86400) (now p))))
                     | None \<Rightarrow> (success_response,
                           close (snd (extract_and_load_data f (server p) src
                             (snd (create_destination_table f (connect db))) (now p - 86400) (now p))))))))"
  by (simp add: lambda_handler_def create_destination_table_def Let_def
      split: option.splits prod.splits)

lemma extract_and_load_data_success:
  assumes "fst (extract_and_load_data f srv src d s e) = None" "extract_query srv src s e \<noteq> []"
  shows "snd (extract_and_load_data f srv src d s e) =
           commit ((fold upsert (extract_query srv src s e) d)
             \<lparr>executed := executed d @ [Execute_values (length (extract_query srv src s e))]\<rparr>)"
  using assms
  by (auto simp: extract_and_load_data_cases execute_values_None split: option.splits if_splits)

text \<open>
  C10. When the extraction statement returns no row, \<open>extract_and_load_data\<close> returns at
  once and leaves the destination connection exactly as it was: nothing is run on it, no
  insert and no commit, so the run leaves the destination database unchanged. (When
  there are rows, the insert is run.)
\<close>

theorem no_records_no_write:
  "extract_error f = None \<longrightarrow>
     (extract_query srv source_conn start_date end_date = [] \<longrightarrow>
        extract_and_load_data f srv source_conn dest_conn start_date end_date = (None, dest_conn)) \<and>
     (extract_query srv source_conn start_date end_date \<noteq> [] \<longrightarrow>
        (\<exists>k. executed (snd (extract_and_load_data f srv source_conn dest_conn start_date end_date))
               = executed dest_conn @ [Execute_values k] \<or>
             executed (snd (extract_and_load_data f srv source_conn dest_conn start_date end_date))
               = executed dest_conn @ [Execute_values k, Commit])) \<and>
     (extract_query (server p) source_conn (now p - 86400) (now p) = [] \<longrightarrow>
        snd (lambda_handler f p source_conn db) = db)"
proof -
  have a: "extract_and_load_data f srv source_conn dest_conn start_date end_date = (None, dest_conn)"
    if "extract_error f = None" "extract_query srv source_conn start_date end_date = []"
    using that by (simp add: extract_and_load_data_def)
  have b: "\<exists>k. executed (snd (extract_and_load_data f srv source_conn dest_conn start_date end_date))
               = executed dest_conn @ [Execute_values k] \<or>
             executed (snd (extract_and_load_data f srv source_conn dest_conn start_date end_date))
               = executed dest_conn @ [Execute_values k, Commit]"
    if "extract_error f = None" "extract_query srv source_conn start_date end_date \<noteq> []"
    using that
    by (auto simp: extract_and_load_data_cases commit_def split: option.splits)
  have c: "snd (lambda_handler f p source_conn db) = db"
    if "extract_error f = None" "extract_query (server p) source_conn (now p - 86400) (now p) = []"
    using that
    by (simp add: lambda_handler_cases extract_and_load_data_def create_destination_table_def
        commit_def close_def connect_def split: option.splits)
  show ?thesis using a b c by blast
qed

theorem no_records_no_write_witness:
  "extract_error no_faults = None \<and>
   extract_query cet gap 0 86400 = [] \<and>
   extract_and_load_data no_faults cet gap (connect stored_dest) 0 86400 = (None, connect stored_dest) \<and>
   snd (lambda_handler no_faults day_one gap stored_dest) = stored_dest \<and>
   extract_query cet north 0 86400 \<noteq> [] \<and>
   executed (snd (extract_and_load_data no_faults cet north (connect stored_dest) 0 86400))
     = [Execute_values 1, Commit]"
proof -
  have n: "extract_error no_faults = None" by (simp add: no_faults_def)
  have g: "extract_query cet gap 0 86400 = []"
    "extract_query (server day_one) gap (now day_one - 86400) (now day_one) = []"
    by (simp_all add: gap_query day_one_def)
  have m: "extract_query cet north 0 86400 \<noteq> []" by (simp add: north_query)
  have x: "executed (snd (extract_and_load_data no_faults cet north (connect stored_dest) 0 86400))
     = [Execute_values 1, Commit]"
    by (simp add: extract_and_load_data_success [OF north_load m] commit_def)
      (simp add: north_query connect_def)
  show ?thesis
    using no_records_no_write [of no_faults cet gap 0 86400 "connect stored_dest" day_one stored_dest]
      n g m x
    by simp
qed

lemma execute_statement_message:
  "fst (execute_statement f i page d) = Some x \<Longrightarrow>
   insert_error f = Some (i, x) \<or> x = cardinality_violation"
  by (auto simp: execute_statement_def insert_statement_def split: option.splits if_splits)

lemma run_statements_message:
  "fst (run_statements f i ps d) = Some x \<Longrightarrow>
   (\<exists>j. insert_error f = Some (j, x)) \<or> x = cardinality_violation"
proof (induction ps arbitrary: i d)
  case Nil
  then show ?case by simp
next
  case (Cons page ps)
  show ?case
  proof (cases "fst (execute_statement f i page d) = None")
    case True
    with Cons.prems Cons.IH [of "Suc i" "snd (execute_statement f i page d)"]
    show ?thesis by (simp add: run_statements_Cons del: run_statements.simps(2))
  next
    case False
    with Cons.prems have "fst (execute_statement f i page d) = Some x"
      by (simp add: run_statements_Cons del: run_statements.simps(2))
    from execute_statement_message [OF this] show ?thesis by blast
  qed
qed

lemma execute_values_message:
  assumes "fst (execute_values f d rs) = Some x"
  shows "(\<exists>j. insert_error f = Some (j, x)) \<or> x = cardinality_violation"
proof -
  from assms have "fst (run_statements f 0 (pages rs) d) = Some x"
    by (cases "run_statements f 0 (pages rs) d") (simp add: execute_values_def)
  then show ?thesis by (rule run_statements_message)
qed

lemma execute_values_first_statement:
  assumes "rs \<noteq> []" "insert_error f = Some (0, x)"
  shows "fst (execute_values f d rs) = Some x"
proof -
  have "pages rs = take page_size rs # pages (drop page_size rs)"
    by (subst pages.simps) (simp add: assms(1))
  then show ?thesis
    by (simp add: execute_values_def execute_statement_def assms(2) split: prod.splits)
qed

lemma extract_and_load_data_raises_iff:
  "fst (extract_and_load_data f srv src d s e) \<noteq> None \<longleftrightarrow>
     extract_error f \<noteq> None \<or>
     extract_query srv src s e \<noteq> [] \<and>
       (fst (execute_values f d (extract_query srv src s e)) \<noteq> None \<or> commit_error f \<noteq> None)"
  by (auto simp: extract_and_load_data_cases split: option.splits)

text \<open>
  C9. The writes of a run are committed once, after the whole batch. An exception in the
  extraction leaves \<open>extract_and_load_data\<close> as it was raised, with the connection
  untouched; so does an exception in any insert statement of the batch, whether the
  server raises it or two records of one statement have the same key. Whenever
  \<open>extract_and_load_data\<close> raises it has committed nothing, and the committed rows of
  \<open>all_trips\<close> are the ones from before. The handler then answers with status 500, never
  with the response of a success, and the closed connection discards the open
  transaction. Only the sequence behind \<open>trip_id\<close>, which no transaction covers, may have
  moved.
\<close>

theorem failed_run_commits_nothing:
  "(extract_error f = Some x \<longrightarrow>
      extract_and_load_data f srv src d s e = (Some x, d)) \<and>
   (extract_error f = None \<and>
    (\<exists>j < length (pages (extract_query srv src s e)).
       (\<exists>x. insert_error f = Some (j, x)) \<or>
       \<not> distinct (map conflict_key (pages (extract_query srv src s e) ! j))) \<longrightarrow>
      fst (extract_and_load_data f srv src d s e) \<noteq> None) \<and>
   (fst (extract_and_load_data f srv src d s e) \<noteq> None \<longrightarrow>
      all_trips (snd (extract_and_load_data f srv src d s e)) = all_trips d \<and>
      Commit \<notin> set (drop (length (executed d)) (executed (snd (extract_and_load_data f srv src d s e))))) \<and>
   (extract_error f \<noteq> None \<or>
    (\<exists>j < length (pages (extract_query (server p) src (now p - 86400) (now p))).
       (\<exists>x. insert_error f = Some (j, x)) \<or>
       \<not> distinct (map conflict_key
            (pages (extract_query (server p) src (now p - 86400) (now p)) ! j))) \<longrightarrow>
      fst (lambda_handler f p src db) \<noteq> success_response) \<and>
   (fst (lambda_handler f p src db) \<noteq> success_response \<longrightarrow>
      all_trips (snd (lambda_handler f p src db)) = all_trips db \<and>
      statusCode (fst (lambda_handler f p src db)) = 500)"
proof -
  have raise: "fst (extract_and_load_data f srv src d s e) \<noteq> None"
    if "extract_error f \<noteq> None \<or>
        (\<exists>j < length (pages (extract_query srv src s e)).
           (\<exists>x. insert_error f = Some (j, x)) \<or>
           \<not> distinct (map conflict_key (pages (extract_query srv src s e) ! j)))"
    for srv d s e
  proof (cases "extract_error f = None")
    case False
    then show ?thesis unfolding extract_and_load_data_raises_iff by blast
  next
    case True
    with that obtain j where j: "j < length (pages (extract_query srv src s e))"
      "(\<exists>x. insert_error f = Some (j, x)) \<or>
       \<not> distinct (map conflict_key (pages (extract_query srv src s e) ! j))"
      by blast
    from j(1) have "extract_query srv src s e \<noteq> []" by auto
    moreover from j have "fst (execute_values f d (extract_query srv src s e)) \<noteq> None"
      unfolding execute_values_returns_iff by blast
    ultimately show ?thesis unfolding extract_and_load_data_raises_iff by blast
  qed
  have a: "extract_and_load_data f srv src d s e = (Some x, d)" if "extract_error f = Some x"
    using that by (simp add: extract_and_load_data_def)
  have c: "all_trips (snd (extract_and_load_data f srv src d s e)) = all_trips d \<and>
      Commit \<notin> set (drop (length (executed d)) (executed (snd (extract_and_load_data f srv src d s e))))"
    if "fst (extract_and_load_data f srv src d s e) \<noteq> None" for d s e
  proof -
    from that obtain err where "fst (extract_and_load_data f srv src d s e) = Some err" by blast
    from extract_and_load_data_raises [OF this] show ?thesis by auto
  qed
  have c': "all_trips (snd (extract_and_load_data f (server p) src d s e)) = all_trips d"
    if "fst (extract_and_load_data f (server p) src d s e) \<noteq> None" for d s e
  proof -
    from that obtain err where "fst (extract_and_load_data f (server p) src d s e) = Some err"
      by blast
    from extract_and_load_data_raises [OF this] show ?thesis by auto
  qed
  have dd: "fst (lambda_handler f p src db) \<noteq> success_response"
    if "extract_error f \<noteq> None \<or>
      (\<exists>j < length (pages (extract_query (server p) src (now p - 86400) (now p))).
         (\<exists>x. insert_error f = Some (j, x)) \<or>
         \<not> distinct (map conflict_key
              (pages (extract_query (server p) src (now p - 86400) (now p)) ! j)))"
    using raise [OF that, of "snd (create_destination_table f (connect db))"]
    by (auto simp: lambda_handler_cases split: option.splits)
  have ee: "all_trips (snd (lambda_handler f p src db)) = all_trips db \<and>
      statusCode (fst (lambda_handler f p src db)) = 500"
    if "fst (lambda_handler f p src db) \<noteq> success_response"
    using that c' [of "snd (create_destination_table f (connect db))" "now p - 86400" "now p"]
    by (auto simp: lambda_handler_cases create_destination_table_all_trips error_response_def
        split: option.splits)
  show ?thesis
    using a raise [of srv s e d] c [of d s e] dd ee by blast
qed

lemma process_simps [simp]:
  "server day_one = cet" "now day_one = 86400" "SOURCE_DB_CONFIG day_one = source_config"
  "server october_28 = zurich_2024" "now october_28 = 1730073600"
  by (simp_all add: day_one_def october_28_def)

lemma day_one_query:
  "extract_query (server day_one) tbl (now day_one - 86400) (now day_one) =
     extract_query cet tbl 0 86400"
  by (simp add: day_one_def)

lemma october_28_query:
  "extract_query (server october_28) tbl (now october_28 - 86400) (now october_28) =
     extract_query zurich_2024 tbl 1729987200 1730073600"
  by (simp add: october_28_def)

lemma no_faults_simps [simp]:
  "connect_source_error no_faults c = None" "connect_dest_error no_faults c = None"
  "create_table_error no_faults = None" "extract_error no_faults = None"
  "insert_error no_faults = None" "commit_error no_faults = None"
  by (simp_all add: no_faults_def)

lemma provider_change_raises:
  "fst (extract_and_load_data no_faults zurich_2024 provider_change d 1729987200 1730073600) =
     Some cardinality_violation"
proof -
  have "\<not> distinct (map conflict_key (extract_query zurich_2024 provider_change 1729987200 1730073600))"
    by (simp add: provider_change_query conflict_key_def)
  then show ?thesis
    by (simp add: extract_and_load_data_cases execute_values_def pages_small page_size_def
        execute_statement_def insert_statement_def provider_change_query)
qed

theorem failed_run_commits_nothing_witness:
  "extract_error insert_fails = None \<and>
   length (pages (extract_query (server day_one) two_vehicles (now day_one - 86400) (now day_one))) = 1 \<and>
   insert_error insert_fails = Some (0, ''server closed the connection unexpectedly'') \<and>
   fst (lambda_handler insert_fails day_one two_vehicles stored_dest) \<noteq> success_response \<and>
   statusCode (fst (lambda_handler insert_fails day_one two_vehicles stored_dest)) = 500 \<and>
   all_trips (snd (lambda_handler insert_fails day_one two_vehicles stored_dest)) = [stored_row] \<and>
   extract_error no_faults = None \<and> insert_error no_faults = None \<and>
   length (pages (extract_query (server october_28) provider_change
     (now october_28 - 86400) (now october_28))) = 1 \<and>
   \<not> distinct (map conflict_key (pages (extract_query (server october_28) provider_change
     (now october_28 - 86400) (now october_28)) ! 0)) \<and>
   fst (lambda_handler no_faults october_28 provider_change stored_dest) =
     error_response cardinality_violation \<and>
   all_trips (snd (lambda_handler no_faults october_28 provider_change stored_dest)) = [stored_row] \<and>
   length (all_trips (snd (lambda_handler no_faults day_one two_vehicles stored_dest))) = 2"
proof -
  let ?R = "extract_query (server day_one) two_vehicles (now day_one - 86400) (now day_one)"
  let ?Q = "extract_query (server october_28) provider_change
     (now october_28 - 86400) (now october_28)"
  have f: "extract_error insert_fails = None"
    "insert_error insert_fails = Some (0, ''server closed the connection unexpectedly'')"
    by (simp_all add: insert_fails_def no_faults_def)
  have l: "length (pages ?R) = 1" "length (pages ?Q) = 1"
    by (simp_all add: day_one_query october_28_query pages_small page_size_def
        two_vehicles_query provider_change_query)
  have q: "\<not> distinct (map conflict_key (pages ?Q ! 0))"
    by (simp add: october_28_query pages_small page_size_def provider_change_query
        conflict_key_def)
  have s: "all_trips stored_dest = [stored_row]" by (simp add: stored_dest_def)
  note T1 = failed_run_commits_nothing [where f = insert_fails and srv = cet and
      src = two_vehicles and d = "connect stored_dest" and s = 0 and e = 86400 and
      p = day_one and db = stored_dest and x = "[]"]
  have h1: "\<exists>j < length (pages ?R). (\<exists>x. insert_error insert_fails = Some (j, x)) \<or>
       \<not> distinct (map conflict_key (pages ?R ! j))"
    using f(2) l(1) by auto
  from T1 h1 have r1: "fst (lambda_handler insert_fails day_one two_vehicles stored_dest) \<noteq> success_response"
    by blast
  from T1 r1 have c1: "all_trips (snd (lambda_handler insert_fails day_one two_vehicles stored_dest)) =
      all_trips stored_dest"
    "statusCode (fst (lambda_handler insert_fails day_one two_vehicles stored_dest)) = 500"
    by blast+
  note T2 = failed_run_commits_nothing [where f = no_faults and srv = zurich_2024 and
      src = provider_change and d = "connect stored_dest" and s = 1729987200 and
      e = 1730073600 and p = october_28 and db = stored_dest and x = "[]"]
  have h2: "\<exists>j < length (pages ?Q). (\<exists>x. insert_error no_faults = Some (j, x)) \<or>
       \<not> distinct (map conflict_key (pages ?Q ! j))"
    using q l(2) by auto
  from T2 h2 have r2: "fst (lambda_handler no_faults october_28 provider_change stored_dest) \<noteq> success_response"
    by blast
  from T2 r2 have c2: "all_trips (snd (lambda_handler no_faults october_28 provider_change stored_dest)) =
      all_trips stored_dest"
    by blast
  have m2: "fst (lambda_handler no_faults october_28 provider_change stored_dest) =
     error_response cardinality_violation"
    by (simp add: lambda_handler_cases october_28_query provider_change_raises)
  have ok: "fst (extract_and_load_data no_faults cet two_vehicles d 0 86400) = None" for d
    by (rule extract_and_load_data_no_faults) (simp_all add: two_vehicles_query conflict_key_def)
  have n: "length (all_trips (snd (lambda_handler no_faults day_one two_vehicles stored_dest))) = 2"
    by (simp add: lambda_handler_cases day_one_query ok extract_and_load_data_returns)
      (simp add: two_vehicles_query upsert_def conflict_def do_update_def
        create_destination_table_def commit_def connect_def stored_dest_def stored_row_def)
  show ?thesis
    using f l q r1 c1 c2 m2 n by (simp add: s)
qed

text \<open>
  The response of the handler does not tell runs apart: a run that wrote one trip and a
  run that wrote none answer the same, as do runs over different windows, and a failed
  extraction and a failed insert with the same message. The message of the exception is
  passed on as it is: when the source server refuses the password, the driver's message
  names the user of \<open>SOURCE_DB_CONFIG\<close>, and so does the response.
\<close>

theorem response_counterexample:
  "fst (lambda_handler no_faults day_one north empty_dest) =
     fst (lambda_handler no_faults day_one gap empty_dest) \<and>
   length (all_trips (snd (lambda_handler no_faults day_one north empty_dest))) = 1 \<and>
   length (all_trips (snd (lambda_handler no_faults day_one gap empty_dest))) = 0 \<and>
   fst (lambda_handler no_faults day_one gap empty_dest) =
     fst (lambda_handler no_faults (day_one\<lparr>now := 172800\<rparr>) gap empty_dest) \<and>
   fst (lambda_handler extract_fails day_one north empty_dest) =
     fst (lambda_handler insert_fails day_one north empty_dest) \<and>
   fst (lambda_handler extract_fails day_one north empty_dest) =
     \<lparr>statusCode = 500, body = ''Error: server closed the connection unexpectedly''\<rparr> \<and>
   user (SOURCE_DB_CONFIG day_one) = ''etl_reader'' \<and>
   fst (lambda_handler authentication_fails day_one north empty_dest) =
     \<lparr>statusCode = 500,
      body = ''Error: FATAL:  password authentication failed for user etl_reader''\<rparr>"
proof -
  have ok: "fst (extract_and_load_data no_faults cet north d 0 86400) = None" for d
    by (rule extract_and_load_data_no_faults) (simp_all add: north_query)
  have a: "fst (lambda_handler no_faults day_one north empty_dest) = success_response"
    "length (all_trips (snd (lambda_handler no_faults day_one north empty_dest))) = 1"
    by (simp_all add: lambda_handler_cases ok extract_and_load_data_returns)
      (simp add: north_query upsert_def conflict_def create_destination_table_def commit_def
        connect_def empty_dest_def)
  have g: "extract_query cet gap (86400 - 86400) 86400 = []"
    "extract_query cet gap (172800 - 86400) 172800 = []"
    by (simp_all add: extract_query_def query_defs gap_def)
  have b: "lambda_handler no_faults day_one gap empty_dest = (success_response, empty_dest)"
    "lambda_handler no_faults (day_one\<lparr>now := 172800\<rparr>) gap empty_dest =
       (success_response, empty_dest)"
    using g
    by (simp_all add: lambda_handler_cases extract_and_load_data_cases
        create_destination_table_def commit_def connect_def close_def empty_dest_def day_one_def)
  have c: "fst (lambda_handler extract_fails day_one north empty_dest) =
      error_response ''server closed the connection unexpectedly''"
    by (simp add: lambda_handler_cases extract_and_load_data_cases extract_fails_def no_faults_def)
  have d: "fst (lambda_handler insert_fails day_one north empty_dest) =
      error_response ''server closed the connection unexpectedly''"
    by (simp add: lambda_handler_cases extract_and_load_data_cases execute_values_first_statement
        insert_fails_def no_faults_def north_query)
  have e: "fst (lambda_handler authentication_fails day_one north empty_dest) =
      error_response ''FATAL:  password authentication failed for user etl_reader''"
    by (simp add: lambda_handler_cases authentication_fails_def no_faults_def source_config_def)
  show ?thesis
    unfolding a b c d e by (simp add: empty_dest_def error_response_def source_config_def)
qed

text \<open>
  C6 (as amended). The handler returns a result of two fields. It is status 200 with the
  fixed body \<open>Data warehouse update completed successfully\<close> exactly when no call raised.
  When a call raised (connecting to the source, connecting to the destination, creating
  the table, the extraction, an insert statement, the commit), it is status 500 with the
  body \<open>Error: \<close> followed by the message of that exception, unchanged: the handler adds
  nothing of the connection parameters to it and removes nothing from it. The result
  carries neither the window nor the number of trips written, and does not name the
  stage that failed.
\<close>

theorem lambda_handler_response:
  "(connect_source_error f (SOURCE_DB_CONFIG p) = Some x \<longrightarrow>
      fst (lambda_handler f p src db) = error_response x) \<and>
   (connect_source_error f (SOURCE_DB_CONFIG p) = None \<and>
    connect_dest_error f (DEST_DB_CONFIG p) = Some x \<longrightarrow>
      fst (lambda_handler f p src db) = error_response x) \<and>
   (connect_source_error f (SOURCE_DB_CONFIG p) = None \<and>
    connect_dest_error f (DEST_DB_CONFIG p) = None \<and> create_table_error f = Some x \<longrightarrow>
      fst (lambda_handler f p src db) = error_response x) \<and>
   (connect_source_error f (SOURCE_DB_CONFIG p) = None \<and>
    connect_dest_error f (DEST_DB_CONFIG p) = None \<and> create_table_error f = None \<longrightarrow>
      (extract_error f = Some x \<longrightarrow> fst (lambda_handler f p src db) = error_response x) \<and>
      (extract_error f = None \<and>
       extract_query (server p) src (now p - 86400) (now p) \<noteq> [] \<and>
       fst (execute_values f (snd (create_destination_table f (connect db)))
             (extract_query (server p) src (now p - 86400) (now p))) = Some x \<longrightarrow>
         fst (lambda_handler f p src db) = error_response x) \<and>
      (extract_error f = None \<and>
       extract_query (server p) src (now p - 86400) (now p) \<noteq> [] \<and>
       fst (execute_values f (snd (create_destination_table f (connect db)))
             (extract_query (server p) src (now p - 86400) (now p))) = None \<and>
       commit_error f = Some x \<longrightarrow>
         fst (lambda_handler f p src db) = error_response x) \<and>
      (extract_error f = None \<and>
       (extract_query (server p) src (now p - 86400) (now p) = [] \<or>
        fst (execute_values f (snd (create_destination_table f (connect db)))
              (extract_query (server p) src (now p - 86400) (now p))) = None \<and>
        commit_error f = None) \<longrightarrow>
         fst (lambda_handler f p src db) = success_response)) \<and>
   (fst (execute_values f d rs) = Some x \<longrightarrow>
      (\<exists>j. insert_error f = Some (j, x)) \<or> x = cardinality_violation) \<and>
   (rs \<noteq> [] \<and> insert_error f = Some (0, x) \<longrightarrow> fst (execute_values f d rs) = Some x) \<and>
   (fst (execute_values f d rs) = None \<longleftrightarrow>
      (\<forall>j < length (pages rs). (\<forall>y. insert_error f \<noteq> Some (j, y)) \<and>
         distinct (map conflict_key (pages rs ! j)))) \<and>
   success_response =
     \<lparr>statusCode = 200, body = ''Data warehouse update completed successfully''\<rparr> \<and>
   error_response x = \<lparr>statusCode = 500, body = ''Error: '' @ x\<rparr>"
proof -
  let ?R = "extract_query (server p) src (now p - 86400) (now p)"
  let ?D = "snd (create_destination_table f (connect db))"
  have a: "fst (lambda_handler f p src db) = error_response x"
    if "connect_source_error f (SOURCE_DB_CONFIG p) = Some x"
    using that by (simp add: lambda_handler_cases)
  have b: "fst (lambda_handler f p src db) = error_response x"
    if "connect_source_error f (SOURCE_DB_CONFIG p) = None"
      "connect_dest_error f (DEST_DB_CONFIG p) = Some x"
    using that by (simp add: lambda_handler_cases)
  have c: "fst (lambda_handler f p src db) = error_response x"
    if "connect_source_error f (SOURCE_DB_CONFIG p) = None"
      "connect_dest_error f (DEST_DB_CONFIG p) = None" "create_table_error f = Some x"
    using that by (simp add: lambda_handler_cases)
  have h: "fst (lambda_handler f p src db) =
      (case fst (extract_and_load_data f (server p) src ?D (now p - 86400) (now p)) of
         Some e \<Rightarrow> error_response e | None \<Rightarrow> success_response)"
    if "connect_source_error f (SOURCE_DB_CONFIG p) = None"
      "connect_dest_error f (DEST_DB_CONFIG p) = None" "create_table_error f = None"
    using that by (simp add: lambda_handler_cases split: option.splits)
  have l1: "fst (extract_and_load_data f (server p) src ?D (now p - 86400) (now p)) = Some x"
    if "extract_error f = Some x"
    using that by (simp add: extract_and_load_data_cases)
  have l2: "fst (extract_and_load_data f (server p) src ?D (now p - 86400) (now p)) = Some x"
    if "extract_error f = None" "?R \<noteq> []" "fst (execute_values f ?D ?R) = Some x"
    using that by (simp add: extract_and_load_data_cases)
  have l3: "fst (extract_and_load_data f (server p) src ?D (now p - 86400) (now p)) = Some x"
    if "extract_error f = None" "?R \<noteq> []" "fst (execute_values f ?D ?R) = None"
      "commit_error f = Some x"
    using that by (simp add: extract_and_load_data_cases)
  have l4: "fst (extract_and_load_data f (server p) src ?D (now p - 86400) (now p)) = None"
    if "extract_error f = None"
      "?R = [] \<or> fst (execute_values f ?D ?R) = None \<and> commit_error f = None"
    using that by (auto simp: extract_and_load_data_cases)
  have d: "(extract_error f = Some x \<longrightarrow> fst (lambda_handler f p src db) = error_response x) \<and>
      (extract_error f = None \<and> ?R \<noteq> [] \<and> fst (execute_values f ?D ?R) = Some x \<longrightarrow>
         fst (lambda_handler f p src db) = error_response x) \<and>
      (extract_error f = None \<and> ?R \<noteq> [] \<and> fst (execute_values f ?D ?R) = None \<and>
       commit_error f = Some x \<longrightarrow>
         fst (lambda_handler f p src db) = error_response x) \<and>
      (extract_error f = None \<and>
       (?R = [] \<or> fst (execute_values f ?D ?R) = None \<and> commit_error f = None) \<longrightarrow>
         fst (lambda_handler f p src db) = success_response)"
    if "connect_source_error f (SOURCE_DB_CONFIG p) = None"
      "connect_dest_error f (DEST_DB_CONFIG p) = None" "create_table_error f = None"
    unfolding h [OF that] using l1 l2 l3 l4 by simp
  have m: "fst (execute_values f d rs) = Some x \<Longrightarrow>
      (\<exists>j. insert_error f = Some (j, x)) \<or> x = cardinality_violation"
    by (rule execute_values_message)
  have n: "rs \<noteq> [] \<Longrightarrow> insert_error f = Some (0, x) \<Longrightarrow> fst (execute_values f d rs) = Some x"
    by (rule execute_values_first_statement)
  show ?thesis
    using a b c d m n execute_values_returns_iff [of f d rs]
    by (simp add: success_response_def error_response_def)
qed

theorem lambda_handler_response_witness:
  "fst (lambda_handler no_faults day_one north empty_dest) =
     \<lparr>statusCode = 200, body = ''Data warehouse update completed successfully''\<rparr> \<and>
   connect_source_error authentication_fails (SOURCE_DB_CONFIG day_one) =
     Some ''FATAL:  password authentication failed for user etl_reader'' \<and>
   fst (lambda_handler authentication_fails day_one north empty_dest) =
     \<lparr>statusCode = 500,
      body = ''Error: FATAL:  password authentication failed for user etl_reader''\<rparr> \<and>
   extract_error extract_fails = Some ''server closed the connection unexpectedly'' \<and>
   fst (lambda_handler extract_fails day_one north empty_dest) =
     \<lparr>statusCode = 500, body = ''Error: server closed the connection unexpectedly''\<rparr> \<and>
   insert_error insert_fails = Some (0, ''server closed the connection unexpectedly'') \<and>
   fst (lambda_handler insert_fails day_one north empty_dest) =
     \<lparr>statusCode = 500, body = ''Error: server closed the connection unexpectedly''\<rparr> \<and>
   commit_error commit_fails = Some ''server closed the connection unexpectedly'' \<and>
   fst (lambda_handler commit_fails day_one north empty_dest) =
     \<lparr>statusCode = 500, body = ''Error: server closed the connection unexpectedly''\<rparr>"
proof -
  let ?R = "extract_query (server day_one) north (now day_one - 86400) (now day_one)"
  let ?m = "''server closed the connection unexpectedly''"
  let ?a = "''FATAL:  password authentication failed for user etl_reader''"
  have R: "?R \<noteq> []" "length (pages ?R) = 1" "distinct (map conflict_key (pages ?R ! 0))"
    by (simp_all add: north_query pages_small page_size_def)
  have pg: "\<forall>j < length (pages ?R). (\<forall>y. insert_error f \<noteq> Some (j, y)) \<and>
      distinct (map conflict_key (pages ?R ! j))" if "insert_error f = None" for f
    using R that by simp
  have cfg: "connect_source_error f (SOURCE_DB_CONFIG day_one) = None"
    "connect_dest_error f (DEST_DB_CONFIG day_one) = None" "create_table_error f = None"
    if "f = no_faults \<or> f = extract_fails \<or> f = insert_fails \<or> f = commit_fails" for f
    using that by (auto simp: extract_fails_def insert_fails_def commit_fails_def no_faults_def)
  have e: "extract_error no_faults = None" "insert_error no_faults = None"
    "commit_error no_faults = None" "extract_error extract_fails = Some ?m"
    "extract_error insert_fails = None" "insert_error insert_fails = Some (0, ?m)"
    "extract_error commit_fails = None" "insert_error commit_fails = None"
    "commit_error commit_fails = Some ?m"
    by (simp_all add: extract_fails_def insert_fails_def commit_fails_def no_faults_def)
  have au: "connect_source_error authentication_fails (SOURCE_DB_CONFIG day_one) = Some ?a"
    by (simp add: authentication_fails_def source_config_def)
  note T = lambda_handler_response [where p = day_one and src = north and db = empty_dest and
      rs = ?R]
  note T0 = T [where f = no_faults and x = "[]" and
      d = "snd (create_destination_table no_faults (connect empty_dest))"]
  from T0 pg [OF e(2)] have x0: "fst (execute_values no_faults
      (snd (create_destination_table no_faults (connect empty_dest))) ?R) = None"
    by simp
  from T0 x0 e(1,3) cfg [of no_faults]
  have r0: "fst (lambda_handler no_faults day_one north empty_dest) = success_response"
    by simp
  from T0 have s0: "success_response =
      \<lparr>statusCode = 200, body = ''Data warehouse update completed successfully''\<rparr>"
    by simp
  note Ta = T [where f = authentication_fails and x = ?a and
      d = "snd (create_destination_table authentication_fails (connect empty_dest))"]
  from Ta au have ra: "fst (lambda_handler authentication_fails day_one north empty_dest) =
      error_response ?a"
    by simp
  from Ta have sa: "error_response ?a = \<lparr>statusCode = 500, body = ''Error: '' @ ?a\<rparr>"
    by simp
  note Te = T [where f = extract_fails and x = ?m and
      d = "snd (create_destination_table extract_fails (connect empty_dest))"]
  from Te e(4) cfg [of extract_fails]
  have re: "fst (lambda_handler extract_fails day_one north empty_dest) = error_response ?m"
    by simp
  from Te have sm: "error_response ?m = \<lparr>statusCode = 500, body = ''Error: '' @ ?m\<rparr>"
    by simp
  note Ti = T [where f = insert_fails and x = ?m and
      d = "snd (create_destination_table insert_fails (connect empty_dest))"]
  from Ti R(1) e(6) have xi: "fst (execute_values insert_fails
      (snd (create_destination_table insert_fails (connect empty_dest))) ?R) = Some ?m"
    by simp
  from Ti xi R(1) e(5) cfg [of insert_fails]
  have ri: "fst (lambda_handler insert_fails day_one north empty_dest) = error_response ?m"
    by simp
  note Tc = T [where f = commit_fails and x = ?m and
      d = "snd (create_destination_table commit_fails (connect empty_dest))"]
  from Tc pg [OF e(8)] have xc: "fst (execute_values commit_fails
      (snd (create_destination_table commit_fails (connect empty_dest))) ?R) = None"
    by simp
  from Tc xc R(1) e(7,9) cfg [of commit_fails]
  have rc: "fst (lambda_handler commit_fails day_one north empty_dest) = error_response ?m"
    by simp
  show ?thesis
    unfolding r0 ra re ri rc s0 sa sm using au e(4,6,9) by simp
qed

subsection \<open>Grouping and aggregation\<close>

lemma aggregate_group:
  assumes "xs \<noteq> []" "\<forall>s \<in> set xs. group_key s = k"
  shows "\<exists>t. aggregate xs = [t] \<and> (bike_id t, provider_id t) = k \<and>
             segment_count t = int (length xs)"
proof (cases xs)
  case Nil
  with assms show ?thesis by simp
next
  case (Cons s ss)
  with assms(2) have "group_key s = k" by simp
  with Cons show ?thesis by (simp add: group_key_def)
qed

lemma filter_group_nonempty:
  "k \<in> set (map group_key segs) \<Longrightarrow> filter (\<lambda>s. group_key s = k) segs \<noteq> []"
  by (auto simp: filter_empty_conv)

lemma aggregate_filter:
  assumes "k \<in> set (map group_key segs)"
  shows "\<exists>t. aggregate (filter (\<lambda>s. group_key s = k) segs) = [t] \<and>
             (bike_id t, provider_id t) = k \<and>
             segment_count t = int (length (filter (\<lambda>s. group_key s = k) segs))"
  by (rule aggregate_group) (use assms filter_group_nonempty in auto)

lemma keys_of_groups:
  "set ks \<subseteq> set (map group_key segs) \<Longrightarrow>
   map (\<lambda>t. (bike_id t, provider_id t))
     (concat (map (\<lambda>k. aggregate (filter (\<lambda>s. group_key s = k) segs)) ks)) = ks"
proof (induction ks)
  case Nil
  then show ?case by simp
next
  case (Cons k ks)
  from Cons.prems have "k \<in> set (map group_key segs)" by simp
  from aggregate_filter [OF this] obtain t where
    "aggregate (filter (\<lambda>s. group_key s = k) segs) = [t]" "(bike_id t, provider_id t) = k"
    by blast
  with Cons show ?case by simp
qed

lemma keys_trip_aggregates:
  "map (\<lambda>t. (bike_id t, provider_id t)) (trip_aggregates segs) = remdups (map group_key segs)"
  unfolding trip_aggregates_def by (rule keys_of_groups) simp

lemma count_trip_aggregates:
  assumes "t \<in> set (trip_aggregates segs)"
  shows "segment_count t =
           int (length (filter (\<lambda>s. group_key s = (bike_id t, provider_id t)) segs))"
proof -
  from assms have "\<exists>k. k \<in> set (map group_key segs) \<and>
      t \<in> set (aggregate (filter (\<lambda>s. group_key s = k) segs))"
    by (auto simp: trip_aggregates_def)
  then obtain k where k: "k \<in> set (map group_key segs)"
    and t: "t \<in> set (aggregate (filter (\<lambda>s. group_key s = k) segs))"
    by blast
  from aggregate_filter [OF k] t show ?thesis by auto
qed

text \<open>
  C1 (as amended). The query groups the segments by \<open>(bike_id, provider_id)\<close> and by
  nothing else: every vehicle and provider with at least one segment in the window gets
  exactly one aggregated row, and its \<open>segment_count\<close> is the number of all segments of
  that vehicle and provider in the window, whatever rows that are no segment lie between
  them.
\<close>

theorem one_trip_per_vehicle:
  "distinct (map (\<lambda>t. (bike_id t, provider_id t)) (trip_aggregates (trip_segments srv rows))) \<and>
   set (map (\<lambda>t. (bike_id t, provider_id t)) (trip_aggregates (trip_segments srv rows))) =
     set (map group_key (trip_segments srv rows)) \<and>
   (\<forall>t \<in> set (trip_aggregates (trip_segments srv rows)).
      segment_count t =
        int (length (filter (\<lambda>s. group_key s = (bike_id t, provider_id t)) (trip_segments srv rows))))"
  using count_trip_aggregates [of _ "trip_segments srv rows"]
  by (simp add: keys_trip_aggregates)

lemma two_rides_aggregates:
  "trip_aggregates (trip_segments cet (trip_data cet two_rides 0 86400)) =
     [\<lparr>bike_id = ''V1'', provider_id = ''P'', start_lat = 47, start_lon = 8,
        end_lat = 47.05, end_lon = 8, trip_start = 3600, trip_end = 13200, total_duration = 40,
        total_distance =
          haversine_km 47 8 47.01 8 + (haversine_km 47.01 8 47.02 8 +
            (haversine_km 47.03 8 47.04 8 + haversine_km 47.04 8 47.05 8)),
        segment_count = 4\<rparr>]"
  by (simp add: query_defs two_rides_def)

theorem one_trip_per_vehicle_witness:
  "map (\<lambda>t. (bike_id t, provider_id t))
     (trip_aggregates (trip_segments cet (trip_data cet two_rides 0 86400))) = [(''V1'', ''P'')] \<and>
   map segment_count (trip_aggregates (trip_segments cet (trip_data cet two_rides 0 86400))) = [4] \<and>
   length (filter (\<lambda>s. group_key s = (''V1'', ''P''))
     (trip_segments cet (trip_data cet two_rides 0 86400))) = 4"
proof -
  have l: "length (filter (\<lambda>s. group_key s = (''V1'', ''P''))
     (trip_segments cet (trip_data cet two_rides 0 86400))) = 4"
    by (simp add: query_defs two_rides_def)
  show ?thesis
    using one_trip_per_vehicle [of cet "trip_data cet two_rides 0 86400"] l
    by (simp add: two_rides_aggregates)
qed

text \<open>
  On the table \<open>two_rides\<close> the partition of section 4.2 has two runs of two segments,
  separated by the pair two hours apart; the query has one aggregated row, of four
  segments, from the first ping to the last.
\<close>

theorem runs_counterexample:
  "length (spec_trip_candidates cet (trip_data cet two_rides 0 86400)) = 2 \<and>
   map length (spec_trip_candidates cet (trip_data cet two_rides 0 86400)) = [2, 2] \<and>
   length (trip_aggregates (trip_segments cet (trip_data cet two_rides 0 86400))) = 1 \<and>
   map segment_count (extract_query cet two_rides 0 86400) = [4] \<and>
   map trip_start (extract_query cet two_rides 0 86400) = [3600] \<and>
   map trip_end (extract_query cet two_rides 0 86400) = [13200]"
proof -
  have a: "map length (spec_trip_candidates cet (trip_data cet two_rides 0 86400)) = [2, 2]"
    by (simp add: spec_trip_candidates_def query_defs two_rides_def)
  then have b: "length (spec_trip_candidates cet (trip_data cet two_rides 0 86400)) = 2"
    using length_map [of length "spec_trip_candidates cet (trip_data cet two_rides 0 86400)"]
    by simp
  have c: "extract_query cet two_rides 0 86400 =
      trip_aggregates (trip_segments cet (trip_data cet two_rides 0 86400))"
    unfolding extract_query_def two_rides_aggregates
    by (simp add: final_where_def haversine_km_pos add_pos_pos)
  show ?thesis
    unfolding c using a b by (simp add: two_rides_aggregates)
qed

text \<open>
  C2 at the table \<open>south\<close>. The one run starts at latitude 47.03 and ends at 47.01; the
  trip the query returns has \<open>start_lat = MIN(start_lat) = 47.02\<close> and
  \<open>end_lat = MAX(end_lat) = 47.02\<close>. Its times, total duration and segment count are the
  ones of the run.
\<close>

theorem south_trip_coordinates:
  "map lat south = [47.03, 47.02, 47.01] \<and>
   map (\<lambda>c. (start_lat (hd c), end_lat (last c)))
     (spec_trip_candidates cet (trip_data cet south 0 86400)) = [(47.03, 47.01)] \<and>
   map (\<lambda>t. (start_lat t, end_lat t)) (extract_query cet south 0 86400) = [(47.02, 47.02)] \<and>
   map (\<lambda>t. (trip_start t, trip_end t, total_duration t, segment_count t))
     (extract_query cet south 0 86400) = [(3600, 4800, 20, 2)]"
proof -
  have a: "trip_aggregates (trip_segments cet (trip_data cet south 0 86400)) =
     [\<lparr>bike_id = ''V1'', provider_id = ''P'', start_lat = 47.02, start_lon = 8,
        end_lat = 47.02, end_lon = 8, trip_start = 3600, trip_end = 4800, total_duration = 20,
        total_distance = haversine_km 47.03 8 47.02 8 + haversine_km 47.02 8 47.01 8,
        segment_count = 2\<rparr>]"
    by (simp add: query_defs south_def)
  have c: "extract_query cet south 0 86400 =
      trip_aggregates (trip_segments cet (trip_data cet south 0 86400))"
    unfolding extract_query_def a
    by (simp add: final_where_def haversine_km_pos add_pos_pos)
  have b: "map (\<lambda>c. (start_lat (hd c), end_lat (last c)))
     (spec_trip_candidates cet (trip_data cet south 0 86400)) = [(47.03, 47.01)]"
    by (simp add: spec_trip_candidates_def query_defs south_def)
  show ?thesis
    unfolding c a using b by (simp add: south_def)
qed

end
